theory Spec2Isabelle
  imports Complex_Main "HOL-Library.Char_ord" "HOL-Library.List_Lexorder"
    "HOL-Library.Option_ord" "HOL-Library.Sublist"
begin

section \<open>Python values, exceptions and effects\<close>

text \<open>
  The module \<^verbatim>\<open>fedcloudclient/checkin.py\<close> works on values that come out of JSON
  documents (the payload of a token, the bodies of HTTP responses) and on optional
  strings given on the command line. A JSON number is an integer or a float; a float that
  was parsed from JSON is a finite double, hence a rational number, or one of the three
  non-finite values the Python parser accepts. \<open>PNone\<close> is both JSON's \<open>null\<close> and
  Python's \<open>None\<close>. A dictionary is an association list read with \<open>map_of\<close>.
  Strings are byte strings: a character beyond ASCII is several \<open>char\<close>s.
\<close>

datatype pyval =
    PNone
  | PBool bool
  | PInt int
  | PFloat rat
  | PNaN
  | PInfinity bool
  | PStr string
  | PList "pyval list"
  | PDict "(string \<times> pyval) list"

text \<open>The exceptions that can leave a function of the module.\<close>

datatype exn =
    TypeError
  | ValueError
  | OverflowError
  | KeyError string
  | AttributeError
  | HTTPError nat
  | RequestException
  | JSONDecodeError
  | SystemExit string

text \<open>What a function does to the outside: a line printed, or a call to a collaborator.\<close>

datatype event =
    Stderr string
  | Stdout string
  | HttpPost string pyval
  | HttpGet string "(string \<times> string) list"
  | AgentCall string int string

text \<open>
  The answer of the HTTP library to one request: the transport failed (the library raises
  a \<open>RequestException\<close>), or there is a response with a status code and a body. The
  body is \<open>None\<close> when it is not a JSON document (\<^verbatim>\<open>.json()\<close> raises).
\<close>

datatype http_outcome = TransportFailed | Response nat "pyval option"

text \<open>
  The collaborators of the module, none of which is code of the repository:
  \<^item> \<open>jwt_decode tok\<close> is \<^verbatim>\<open>jwt.decode(tok, options={"verify_signature": False})\<close>:
    the payload dictionary, or \<open>None\<close> when the library raises \<open>InvalidTokenError\<close>;
  \<^item> \<open>time_now\<close> is \<^verbatim>\<open>int(time.time())\<close>;
  \<^item> \<open>str_to_int s\<close> is \<^verbatim>\<open>int(s)\<close> on a string, \<open>None\<close> for \<open>ValueError\<close>;
  \<^item> \<open>utc_strftime t\<close> is
    \<^verbatim>\<open>datetime.utcfromtimestamp(t).strftime("%Y-%m-%d %H:%M:%S")\<close>, an exception
    when the timestamp is out of the range of the platform;
  \<^item> \<open>requests_post url json\<close> and \<open>requests_get url headers\<close> are the two HTTP calls;
  \<^item> \<open>agent_get_access_token account min_valid_period application_hint\<close> is the call to
    oidc-agent: the token, or \<open>Inl\<close> the text of the \<open>OidcAgentError\<close>.
\<close>

record env =
  jwt_decode :: "string \<Rightarrow> (string \<times> pyval) list option"
  time_now :: int
  str_to_int :: "string \<Rightarrow> int option"
  utc_strftime :: "int \<Rightarrow> exn + string"
  requests_post :: "string \<Rightarrow> pyval \<Rightarrow> http_outcome"
  requests_get :: "string \<Rightarrow> (string \<times> string) list \<Rightarrow> http_outcome"
  agent_get_access_token :: "string \<Rightarrow> int \<Rightarrow> string \<Rightarrow> string + string"

text \<open>
  A run of a function: the events in the order they happened, and either the exception
  that ended the run or the value returned.
\<close>

type_synonym 'a run = "event list \<times> (exn + 'a)"

definition ret :: "'a \<Rightarrow> 'a run" where
  "ret x = ([], Inr x)"

definition raise :: "exn \<Rightarrow> 'a run" where
  "raise e = ([], Inl e)"

definition emit :: "event \<Rightarrow> unit run" where
  "emit ev = ([ev], Inr ())"

definition bind_run :: "'a run \<Rightarrow> ('a \<Rightarrow> 'b run) \<Rightarrow> 'b run" where
  "bind_run m f =
     (case m of
        (t, Inl e) \<Rightarrow> (t, Inl e)
      | (t, Inr x) \<Rightarrow> (case f x of (t', r) \<Rightarrow> (t @ t', r)))"

subsection \<open>Built-in operations of Python the module uses\<close>

text \<open>Truth value of an optional command-line string: \<open>None\<close> and \<open>""\<close> are false.\<close>

fun truthy :: "string option \<Rightarrow> bool" where
  "truthy None = False"
| "truthy (Some s) = (s \<noteq> [])"

text \<open>\<^verbatim>\<open>d[k]\<close> on a dictionary.\<close>

definition subscript :: "(string \<times> pyval) list \<Rightarrow> string \<Rightarrow> pyval run" where
  "subscript d k = (case map_of d k of None \<Rightarrow> raise (KeyError k) | Some v \<Rightarrow> ret v)"

text \<open>\<^verbatim>\<open>v[k]\<close> with a string key on any value: only a dictionary has string keys.\<close>

definition subscript_val :: "pyval \<Rightarrow> string \<Rightarrow> pyval run" where
  "subscript_val v k = (case v of PDict d \<Rightarrow> subscript d k | _ \<Rightarrow> raise TypeError)"

text \<open>\<^verbatim>\<open>v.get(k, dflt)\<close>: only a dictionary has the method.\<close>

definition dict_get :: "pyval \<Rightarrow> string \<Rightarrow> pyval \<Rightarrow> pyval run" where
  "dict_get v k dflt =
     (case v of
        PDict d \<Rightarrow> ret (case map_of d k of None \<Rightarrow> dflt | Some x \<Rightarrow> x)
      | _ \<Rightarrow> raise AttributeError)"

text \<open>\<^verbatim>\<open>int(v)\<close>: a float is truncated towards zero.\<close>

definition py_int :: "env \<Rightarrow> pyval \<Rightarrow> int run" where
  "py_int env v =
     (case v of
        PInt n \<Rightarrow> ret n
      | PBool b \<Rightarrow> ret (if b then 1 else 0)
      | PFloat r \<Rightarrow> ret (if 0 \<le> r then \<lfloor>r\<rfloor> else \<lceil>r\<rceil>)
      | PNaN \<Rightarrow> raise ValueError
      | PInfinity _ \<Rightarrow> raise OverflowError
      | PStr s \<Rightarrow> (case str_to_int env s of None \<Rightarrow> raise ValueError | Some n \<Rightarrow> ret n)
      | _ \<Rightarrow> raise TypeError)"

text \<open>\<^verbatim>\<open>a + b\<close> where \<open>b\<close> is a string: defined when \<open>a\<close> is a string too.\<close>

definition str_add :: "pyval \<Rightarrow> string \<Rightarrow> string run" where
  "str_add a b = (case a of PStr s \<Rightarrow> ret (s @ b) | _ \<Rightarrow> raise TypeError)"

text \<open>Decimal digits of a natural number, and \<^verbatim>\<open>str(n)\<close> on an integer.\<close>

fun digits :: "nat \<Rightarrow> string" where
  "digits n =
     (if n < 10 then [char_of (48 + n)]
      else digits (n div 10) @ [char_of (48 + n mod 10)])"

definition str_int :: "int \<Rightarrow> string" where
  "str_int i = (if i < 0 then CHR ''-'' # digits (nat (- i)) else digits (nat i))"

section \<open>The module\<close>

text \<open>Minimal lifetime of the access token is 30s.\<close>

definition MIN_ACCESS_TOKEN_TIME :: int where
  "MIN_ACCESS_TOKEN_TIME = 30"

text \<open>\<^verbatim>\<open>print_error(message, quiet)\<close>: print the message to stderr if not quiet.\<close>

definition print_error :: "string \<Rightarrow> bool \<Rightarrow> unit run" where
  "print_error message quiet = (if \<not> quiet then emit (Stderr message) else ret ())"

text \<open>
  \<^verbatim>\<open>decode_token(oidc_access_token)\<close>: the payload, or \<open>None\<close> after an error message
  when the library rejects the token.
\<close>

definition decode_token :: "env \<Rightarrow> string \<Rightarrow> (string \<times> pyval) list option run" where
  "decode_token env oidc_access_token =
     (case jwt_decode env oidc_access_token of
        None \<Rightarrow> bind_run (print_error ''Error: Invalid access token.'' False) (\<lambda>_. ret None)
      | Some payload \<Rightarrow> ret (Some payload))"

text \<open>The report of \<^verbatim>\<open>check_token\<close> in verbose mode.\<close>

definition report_validity :: "env \<Rightarrow> int \<Rightarrow> int \<Rightarrow> unit run" where
  "report_validity env exp_timestamp exp_time_in_sec =
     (case utc_strftime env exp_timestamp of
        Inl e \<Rightarrow> raise e
      | Inr exp_time_str \<Rightarrow>
          bind_run (emit (Stdout (''Token is valid until '' @ exp_time_str @ '' UTC''))) (\<lambda>_.
            if exp_time_in_sec < 24 * 3600
            then emit (Stdout (''Token expires in '' @ str_int exp_time_in_sec @ '' seconds''))
            else emit (Stdout (''Token expires in ''
                   @ str_int (exp_time_in_sec div (24 * 3600)) @ '' days''))))"

text \<open>\<^verbatim>\<open>check_token(oidc_token, verbose=False)\<close>: the token when it is valid, else \<open>None\<close>.\<close>

definition check_token :: "env \<Rightarrow> string \<Rightarrow> bool \<Rightarrow> pyval run" where
  "check_token env oidc_token verbose =
     bind_run (decode_token env oidc_token) (\<lambda>payload.
       case payload of
         None \<Rightarrow> ret PNone
       | Some p \<Rightarrow>
           bind_run (subscript p ''exp'') (\<lambda>v.
           bind_run (py_int env v) (\<lambda>exp_timestamp.
             let current_timestamp = time_now env;
                 exp_time_in_sec = exp_timestamp - current_timestamp
             in if exp_time_in_sec < MIN_ACCESS_TOKEN_TIME
                then bind_run (print_error ''Error: Expired access token.'' True) (\<lambda>_. ret PNone)
                else bind_run
                       (if verbose then report_validity env exp_timestamp exp_time_in_sec
                        else ret ())
                       (\<lambda>_. ret (PStr oidc_token)))))"


text \<open>\<^verbatim>\<open>get_checkin_id(oidc_token)\<close>: the subject of the token.\<close>

definition get_checkin_id :: "env \<Rightarrow> string \<Rightarrow> pyval run" where
  "get_checkin_id env oidc_token =
     bind_run (decode_token env oidc_token) (\<lambda>payload.
       case payload of
         None \<Rightarrow> ret PNone
       | Some p \<Rightarrow> subscript p ''sub'')"

subsection \<open>The token sources\<close>

text \<open>An optional command-line string as a Python value.\<close>

fun opt_val :: "string option \<Rightarrow> pyval" where
  "opt_val None = PNone"
| "opt_val (Some s) = PStr s"

text \<open>
  \<^verbatim>\<open>get_token_from_oidc_agent(oidc_agent_account)\<close>: the token of the agent, or \<open>None\<close>
  after an error message when the agent fails, or when no account is given.
\<close>

definition get_token_from_oidc_agent :: "env \<Rightarrow> string option \<Rightarrow> pyval run" where
  "get_token_from_oidc_agent env oidc_agent_account =
     (case oidc_agent_account of
        Some account \<Rightarrow>
          (if account \<noteq> [] then
             bind_run (emit (AgentCall account MIN_ACCESS_TOKEN_TIME ''fedcloudclient'')) (\<lambda>_.
               case agent_get_access_token env account MIN_ACCESS_TOKEN_TIME ''fedcloudclient'' of
                 Inr access_token \<Rightarrow> ret (PStr access_token)
               | Inl exception \<Rightarrow>
                   bind_run
                     (print_error
                        (''Error during getting access token from oidc-agent'' @ [CHR 0x0A]
                           @ ''Error message: '' @ exception)
                        False)
                     (\<lambda>_. ret PNone))
           else ret PNone)
      | None \<Rightarrow> ret PNone)"

text \<open>The two HTTP calls, with the event they leave, and the methods of a response.\<close>

definition http_post :: "env \<Rightarrow> string \<Rightarrow> pyval \<Rightarrow> (nat \<times> pyval option) run" where
  "http_post env url data =
     bind_run (emit (HttpPost url data)) (\<lambda>_.
       case requests_post env url data of
         TransportFailed \<Rightarrow> raise RequestException
       | Response status body \<Rightarrow> ret (status, body))"

text \<open>
  A URL that is not a string is turned into its text by the library, which then rejects
  it for its missing scheme before anything is sent.
\<close>

definition http_get :: "env \<Rightarrow> pyval \<Rightarrow> (string \<times> string) list \<Rightarrow> (nat \<times> pyval option) run" where
  "http_get env url headers =
     (case url of
        PStr u \<Rightarrow>
          bind_run (emit (HttpGet u headers)) (\<lambda>_.
            case requests_get env u headers of
              TransportFailed \<Rightarrow> raise RequestException
            | Response status body \<Rightarrow> ret (status, body))
      | _ \<Rightarrow> raise RequestException)"

text \<open>\<^verbatim>\<open>raise_for_status()\<close> raises for the client and server error codes.\<close>

definition raise_for_status :: "nat \<times> pyval option \<Rightarrow> unit run" where
  "raise_for_status resp =
     (if 400 \<le> fst resp \<and> fst resp < 600 then raise (HTTPError (fst resp)) else ret ())"

definition response_json :: "nat \<times> pyval option \<Rightarrow> pyval run" where
  "response_json resp = (case snd resp of None \<Rightarrow> raise JSONDecodeError | Some v \<Rightarrow> ret v)"

text \<open>\<^verbatim>\<open>get_token_from_mytoken_server(mytoken, mytoken_server)\<close>.\<close>

definition get_token_from_mytoken_server :: "env \<Rightarrow> string \<Rightarrow> string option \<Rightarrow> pyval run" where
  "get_token_from_mytoken_server env mytoken mytoken_server =
     (let data = PDict [(''grant_type'', PStr ''mytoken''), (''mytoken'', PStr mytoken)]
      in bind_run (str_add (opt_val mytoken_server) ''/api/v0/token/access'') (\<lambda>url.
         bind_run (http_post env url data) (\<lambda>req.
         bind_run (raise_for_status req) (\<lambda>_.
         bind_run (response_json req) (\<lambda>body.
           dict_get body ''access_token'' PNone)))))"

subsection \<open>The resolution policy\<close>

definition no_token_message :: string where
  "no_token_message =
     ''Error: An access token is needed for the operation. You can specify ''
     @ ''access token directly via --oidc-access-token option or use oidc-agent ''
     @ ''via --oidc-agent-account or mytoken via --mytoken''"

text \<open>
  \<^verbatim>\<open>get_access_token(oidc_access_token, oidc_agent_account, mytoken, mytoken_server)\<close>.
  The three \<^verbatim>\<open>if\<close>s test the truth value of the argument; the branch taken works on
  the string itself.
\<close>

fun str_of :: "string option \<Rightarrow> string" where
  "str_of (Some s) = s"
| "str_of None = []"

definition get_access_token ::
  "env \<Rightarrow> string option \<Rightarrow> string option \<Rightarrow> string option \<Rightarrow> string option \<Rightarrow> pyval run" where
  "get_access_token env oidc_access_token oidc_agent_account mytoken mytoken_server =
     (if truthy oidc_access_token then check_token env (str_of oidc_access_token) False
      else if truthy mytoken
        then get_token_from_mytoken_server env (str_of mytoken) mytoken_server
      else if truthy oidc_agent_account
        then get_token_from_oidc_agent env oidc_agent_account
      else raise (SystemExit no_token_message))"

text \<open>
  An uncaught \<^verbatim>\<open>SystemExit\<close> whose argument is a string makes the interpreter print
  the string to stderr and end the process with status 1; so does, after a traceback, any
  other uncaught exception.
\<close>

fun exit_status :: "exn \<Rightarrow> nat" where
  "exit_status (SystemExit message) = 1"
| "exit_status _ = 1"

section \<open>Regular expressions\<close>

text \<open>
  The part of Python's \<^verbatim>\<open>re\<close> that \<^verbatim>\<open>VO_PATTERN\<close> uses: a character, the dot
  (any character but a newline), concatenation, a numbered group, the greedy star and the
  lazy star. \<open>r+\<close> is \<open>r\<close> followed by \<open>r*\<close>, and \<open>r+?\<close> is \<open>r\<close> followed by
  \<open>r*?\<close>.
\<close>

datatype regex =
    Eps
  | Lit char
  | Dot
  | Cat regex regex
  | Group nat regex
  | Star regex
  | LazyStar regex

text \<open>
  The state of a match is the rest of the subject and the groups captured so far.
  \<open>matches r st\<close> lists every way \<open>r\<close> can match at the start of the rest, in the order
  in which the backtracking matcher tries them: the greedy star tries one more round
  before it stops, the lazy star stops before it tries one more round. A round of a star
  counts only when it has consumed something.
\<close>

type_synonym mstate = "string \<times> (nat \<Rightarrow> string option)"

fun matches :: "regex \<Rightarrow> mstate \<Rightarrow> mstate list" where
  "matches Eps st = [st]"
| "matches (Lit c) st =
     (case fst st of [] \<Rightarrow> [] | x # xs \<Rightarrow> if x = c then [(xs, snd st)] else [])"
| "matches Dot st =
     (case fst st of [] \<Rightarrow> [] | x # xs \<Rightarrow> if x \<noteq> CHR 0x0A then [(xs, snd st)] else [])"
| "matches (Cat r1 r2) st = concat (map (matches r2) (matches r1 st))"
| "matches (Group n r) st =
     map (\<lambda>st'. (fst st', (snd st')(n \<mapsto> take (length (fst st) - length (fst st')) (fst st))))
       (matches r st)"
| "matches (Star r) st =
     concat (map (\<lambda>st'. if length (fst st') < length (fst st) then matches (Star r) st' else [])
       (matches r st)) @ [st]"
| "matches (LazyStar r) st =
     st # concat (map (\<lambda>st'. if length (fst st') < length (fst st) then matches (LazyStar r) st' else [])
       (matches r st))"

text \<open>
  \<^verbatim>\<open>pattern.match(s)\<close>: the first way to match at the start of \<open>s\<close> (the end of \<open>s\<close>
  need not be reached), as its groups, or \<open>None\<close>.
\<close>

definition re_match :: "regex \<Rightarrow> string \<Rightarrow> (nat \<Rightarrow> string option) option" where
  "re_match r s = (case matches r (s, Map.empty) of [] \<Rightarrow> None | st # _ \<Rightarrow> Some (snd st))"

text \<open>A run of pattern text without operators other than the dot.\<close>

fun atoms :: "string \<Rightarrow> regex" where
  "atoms [] = Eps"
| "atoms (c # cs) = Cat (if c = CHR ''.'' then Dot else Lit c) (atoms cs)"

text \<open>
  \<^verbatim>\<open>VO_PATTERN = "urn:mace:egi.eu:group:(.+?):(.+:)*role=member#aai.egi.eu"\<close>
\<close>

definition VO_PATTERN :: regex where
  "VO_PATTERN =
     Cat (atoms ''urn:mace:egi.eu:group:'')
    (Cat (Group 1 (Cat Dot (LazyStar Dot)))
    (Cat (Lit CHR '':'')
    (Cat (Star (Group 2 (Cat (Cat Dot (Star Dot)) (Lit CHR '':''))))
         (atoms ''role=member#aai.egi.eu''))))"

section \<open>Virtual organisations of a token\<close>

text \<open>\<^verbatim>\<open>oidc_discover(oidc_url)\<close>: the OIDC configuration of the issuer.\<close>

definition oidc_discover :: "env \<Rightarrow> pyval \<Rightarrow> pyval run" where
  "oidc_discover env oidc_url =
     bind_run (str_add oidc_url ''/.well-known/openid-configuration'') (\<lambda>url.
     bind_run (http_get env (PStr url) []) (\<lambda>request.
     bind_run (raise_for_status request) (\<lambda>_.
       response_json request)))"

text \<open>
  What a \<^verbatim>\<open>for\<close> loop goes through: the elements of a list, the characters of a
  string, the keys of a dictionary; nothing else here can be iterated.
\<close>

definition py_iter :: "pyval \<Rightarrow> pyval list run" where
  "py_iter v =
     (case v of
        PList xs \<Rightarrow> ret xs
      | PStr s \<Rightarrow> ret (map (\<lambda>c. PStr [c]) s)
      | PDict d \<Rightarrow> ret (map PStr (remdups (map fst d)))
      | _ \<Rightarrow> raise TypeError)"

text \<open>
  The loop of \<^verbatim>\<open>token_list_vos\<close>. The set holds what \<^verbatim>\<open>vo.groups()[0]\<close> gives: the
  text of the first group, or \<open>None\<close> for a group that took no part in the match.
  Matching anything but a string is a \<open>TypeError\<close>.
\<close>

fun vos_loop :: "pyval list \<Rightarrow> string option set \<Rightarrow> string option set run" where
  "vos_loop [] vos = ret vos"
| "vos_loop (claim # claims) vos =
     (case claim of
        PStr s \<Rightarrow>
          (case re_match VO_PATTERN s of
             None \<Rightarrow> vos_loop claims vos
           | Some groups \<Rightarrow> vos_loop claims (insert (groups 1) vos))
      | _ \<Rightarrow> raise TypeError)"

text \<open>
  \<^verbatim>\<open>sorted(vos)\<close>: strings are ordered by their characters; \<open>None\<close> cannot be
  compared with a string.
\<close>

definition py_sorted :: "string option set \<Rightarrow> string option list run" where
  "py_sorted vos =
     (if None \<in> vos \<and> vos - {None} \<noteq> {} then raise TypeError
      else ret (sorted_list_of_set vos))"

text \<open>\<^verbatim>\<open>token_list_vos(oidc_access_token)\<close>: the sorted names of the VOs.\<close>

definition token_list_vos :: "env \<Rightarrow> string \<Rightarrow> string option list run" where
  "token_list_vos env oidc_access_token =
     bind_run (decode_token env oidc_access_token) (\<lambda>payload.
     bind_run (case payload of None \<Rightarrow> raise TypeError | Some p \<Rightarrow> subscript p ''iss'') (\<lambda>oidc_url.
     bind_run (oidc_discover env oidc_url) (\<lambda>oidc_ep.
     bind_run (subscript_val oidc_ep ''userinfo_endpoint'') (\<lambda>endpoint.
     bind_run (http_get env endpoint [(''Authorization'', ''Bearer '' @ oidc_access_token)])
       (\<lambda>request.
     bind_run (raise_for_status request) (\<lambda>_.
     bind_run (response_json request) (\<lambda>body.
     bind_run (dict_get body ''eduperson_entitlement'' (PList [])) (\<lambda>entitlements.
     bind_run (py_iter entitlements) (\<lambda>claims.
     bind_run (vos_loop claims {}) (\<lambda>vos.
       py_sorted vos))))))))))"

section \<open>Notions used in the statements\<close>

text \<open>An event that is a request to the mytoken server, or a call to the agent.\<close>

fun contacts_exchange :: "event \<Rightarrow> bool" where
  "contacts_exchange (HttpPost url data) = True"
| "contacts_exchange _ = False"

fun contacts_agent :: "event \<Rightarrow> bool" where
  "contacts_agent (AgentCall account period hint) = True"
| "contacts_agent _ = False"

text \<open>A value that has the method \<^verbatim>\<open>get\<close>, that is a dictionary.\<close>

fun is_dict :: "pyval \<Rightarrow> bool" where
  "is_dict (PDict d) = True"
| "is_dict _ = False"

text \<open>The VO an entitlement names: the first group of the match, if there is a match.\<close>

definition vo_of :: "string \<Rightarrow> string option" where
  "vo_of s = (case re_match VO_PATTERN s of None \<Rightarrow> None | Some groups \<Rightarrow> groups 1)"

section \<open>A concrete environment\<close>

text \<open>
  An identity provider at \<^verbatim>\<open>https://idp\<close> at time 1000: the token \<^verbatim>\<open>fresh\<close> expires
  at 1030, the token \<^verbatim>\<open>stale\<close> at 1029, the token \<^verbatim>\<open>noexp\<close> has no expiry, the
  token \<^verbatim>\<open>second\<close> comes from a second provider at \<^verbatim>\<open>https://idp2\<close>, the token
  \<^verbatim>\<open>foreign\<close> from a third one at \<^verbatim>\<open>https://idp3\<close>, the token \<^verbatim>\<open>far\<close> gives its
  expiry in milliseconds, and nothing else decodes. The formatter of dates raises
  \<open>ValueError\<close> beyond the last second of the year 9999, as the library does; it knows
  the expiry times 1030 and 2000 of the tokens above, and no statement uses its answer
  for another time. The mytoken server at \<^verbatim>\<open>https://mt\<close> hands out the token
  \<^verbatim>\<open>stale\<close>, the one at \<^verbatim>\<open>https://bare\<close> answers with an empty object, the one at
  \<^verbatim>\<open>https://multi\<close> with status 300 and a token, the one at \<^verbatim>\<open>https://page\<close> with
  a body that is not JSON, the one at \<^verbatim>\<open>https://list\<close> with a JSON list, and the one at
  \<^verbatim>\<open>https://down\<close> with status 500. The agent knows every account.
\<close>

definition example_entitlements :: "string list" where
  "example_entitlements =
     [''urn:mace:egi.eu:group:vo.example.eu:role=member#aai.egi.eu'',
      ''urn:mace:egi.eu:group:vo.example.eu:role=manager#aai.egi.eu'',
      ''not-a-matching-string'']"

definition second_entitlements :: "string list" where
  "second_entitlements =
     [''urn:mace:egi.eu:group:vo.other.eu:role=member#aai.egi.eu'',
      ''urn:mace:egi.eu:group:vo.example.eu:role=member#aai.egi.eu'',
      ''urn:mace:egi.eu:group:vo.example.eu:admins:role=member#aai.egi.eu'']"

definition foreign_entitlements :: "string list" where
  "foreign_entitlements =
     [''urn:mace:egi.eu:group:vo.example.eu:role=member#aai.egi.eu.evil.org'',
      ''urn:mace:egi-eu:group:vo.other.eu:role=member#aai-egi-eu'']"

definition example_env :: env where
  "example_env =
     \<lparr> jwt_decode = (\<lambda>t.
         if t = ''fresh'' then Some [(''exp'', PInt 1030), (''iss'', PStr ''https://idp'')]
         else if t = ''stale'' then Some [(''exp'', PInt 1029), (''iss'', PStr ''https://idp'')]
         else if t = ''second'' then Some [(''exp'', PInt 2000), (''iss'', PStr ''https://idp2'')]
         else if t = ''foreign'' then Some [(''exp'', PInt 2000), (''iss'', PStr ''https://idp3'')]
         else if t = ''far'' then Some [(''exp'', PInt 1700000000000)]
         else if t = ''noexp'' then Some [(''sub'', PStr ''user'')]
         else None),
       time_now = 1000,
       str_to_int = (\<lambda>s. None),
       utc_strftime = (\<lambda>t.
         if 253402300799 < t then Inl ValueError
         else if t = 2000 then Inr ''1970-01-01 00:33:20''
         else Inr ''1970-01-01 00:17:10''),
       requests_post = (\<lambda>url data.
         if url = ''https://mt/api/v0/token/access''
           then Response 200 (Some (PDict [(''access_token'', PStr ''stale'')]))
         else if url = ''https://bare/api/v0/token/access''
           then Response 200 (Some (PDict []))
         else if url = ''https://multi/api/v0/token/access''
           then Response 300 (Some (PDict [(''access_token'', PStr ''fresh'')]))
         else if url = ''https://page/api/v0/token/access''
           then Response 200 None
         else if url = ''https://list/api/v0/token/access''
           then Response 200 (Some (PList []))
         else if url = ''https://down/api/v0/token/access''
           then Response 500 None
         else TransportFailed),
       requests_get = (\<lambda>url headers.
         if url = ''https://idp/.well-known/openid-configuration''
           then Response 200 (Some (PDict [(''userinfo_endpoint'', PStr ''https://idp/userinfo'')]))
         else if url = ''https://idp/userinfo''
           then Response 200
             (Some (PDict [(''eduperson_entitlement'', PList (map PStr example_entitlements))]))
         else if url = ''https://idp2/.well-known/openid-configuration''
           then Response 200 (Some (PDict [(''userinfo_endpoint'', PStr ''https://idp2/me'')]))
         else if url = ''https://idp2/me''
           then Response 200
             (Some (PDict [(''eduperson_entitlement'', PList (map PStr second_entitlements))]))
         else if url = ''https://idp3/.well-known/openid-configuration''
           then Response 200 (Some (PDict [(''userinfo_endpoint'', PStr ''https://idp3/me'')]))
         else if url = ''https://idp3/me''
           then Response 200
             (Some (PDict [(''eduperson_entitlement'', PList (map PStr foreign_entitlements))]))
         else TransportFailed),
       agent_get_access_token = (\<lambda>account period hint. Inr ''from-agent'') \<rparr>"

section \<open>Runs\<close>

text \<open>The equation of \<open>digits\<close> rewrites its own right-hand side.\<close>

declare digits.simps [simp del]

lemma bind_run_ret: "bind_run (ret x) f = f x"
  by (cases "f x") (simp add: bind_run_def ret_def)

lemma bind_run_raise: "bind_run (raise e) f = raise e"
  by (simp add: bind_run_def raise_def)

lemma bind_run_Inl: "bind_run (t, Inl e) f = (t, Inl e)"
  by (simp add: bind_run_def)

lemma bind_run_Inr: "bind_run (t, Inr x) f = (t @ fst (f x), snd (f x))"
  by (cases "f x") (simp add: bind_run_def)

lemma print_error_quiet: "print_error message True = ret ()"
  by (simp add: print_error_def)

lemma print_error_loud: "print_error message False = ([Stderr message], Inr ())"
  by (simp add: print_error_def emit_def)

lemma decode_token_Some: "jwt_decode env tok = Some p \<Longrightarrow> decode_token env tok = ret (Some p)"
  by (simp add: decode_token_def)

lemma decode_token_None:
  "jwt_decode env tok = None
   \<Longrightarrow> decode_token env tok = ([Stderr ''Error: Invalid access token.''], Inr None)"
  by (simp add: decode_token_def print_error_loud bind_run_Inr ret_def)

section \<open>Validity of a token\<close>

lemma check_token_expired:
  assumes "jwt_decode env tok = Some p" and "map_of p ''exp'' = Some v"
    and "py_int env v = ret e" and "e - time_now env < MIN_ACCESS_TOKEN_TIME"
  shows "check_token env tok verbose = ([], Inr PNone)"
  using assms
  by (simp add: check_token_def decode_token_Some subscript_def print_error_quiet
      bind_run_Inr ret_def)

lemma check_token_valid:
  assumes "jwt_decode env tok = Some p" and "map_of p ''exp'' = Some v"
    and "py_int env v = ret e" and "\<not> e - time_now env < MIN_ACCESS_TOKEN_TIME"
  shows "check_token env tok False = ([], Inr (PStr tok))"
  using assms
  by (simp add: check_token_def decode_token_Some subscript_def bind_run_Inr ret_def)

lemma check_token_valid_verbose:
  assumes "jwt_decode env tok = Some p" and "map_of p ''exp'' = Some v"
    and "py_int env v = ret e" and "\<not> e - time_now env < MIN_ACCESS_TOKEN_TIME"
    and "utc_strftime env e = Inr s"
  shows "check_token env tok True =
     ([Stdout (''Token is valid until '' @ s @ '' UTC''),
       Stdout (if e - time_now env < 24 * 3600
               then ''Token expires in '' @ str_int (e - time_now env) @ '' seconds''
               else ''Token expires in '' @ str_int ((e - time_now env) div (24 * 3600))
                    @ '' days'')],
      Inr (PStr tok))"
  using assms
  by (simp add: check_token_def decode_token_Some subscript_def report_validity_def emit_def
      bind_run_Inr ret_def)

lemma check_token_verbose_example:
  "check_token example_env ''fresh'' True
     = ([Stdout ''Token is valid until 1970-01-01 00:17:10 UTC'',
         Stdout ''Token expires in 30 seconds''],
        Inr (PStr ''fresh''))"
  by code_simp

text \<open>
  C3, as the specification states it, fails in verbose mode: the token \<open>far\<close> decodes
  and has far more than 30 seconds left, yet \<open>check_token\<close> does not return it; the
  date of its expiry cannot be formatted and the \<open>ValueError\<close> leaves the function.
\<close>

theorem check_token_verbose_counterexample:
  "jwt_decode example_env ''far'' = Some [(''exp'', PInt 1700000000000)]
   \<and> 30 \<le> 1700000000000 - time_now example_env
   \<and> utc_strftime example_env 1700000000000 = Inl ValueError
   \<and> check_token example_env ''far'' True = ([], Inl ValueError)"
  by (simp add: check_token_def decode_token_def subscript_def py_int_def report_validity_def
      example_env_def MIN_ACCESS_TOKEN_TIME_def bind_run_Inr bind_run_Inl ret_def raise_def)

text \<open>
  C3, amended. For a token that decodes and whose \<open>exp\<close> claim converts to the integer
  \<open>e\<close>: when \<open>e - now \<ge> 30\<close>, \<open>check_token\<close> returns the token and prints nothing in
  the default mode, and in verbose mode it prints the two lines of its report and returns
  the token, provided the expiry time can be formatted as a date; when \<open>e - now \<le> 29\<close>
  the answer is \<open>None\<close>, in either mode, and nothing is printed.
\<close>

theorem check_token_boundary:
  assumes "jwt_decode env tok = Some p" and "map_of p ''exp'' = Some v"
    and "py_int env v = ret e"
  shows "(30 \<le> e - time_now env \<longrightarrow> check_token env tok False = ([], Inr (PStr tok)))
       \<and> (30 \<le> e - time_now env \<and> utc_strftime env e = Inr s
          \<longrightarrow> check_token env tok True =
              ([Stdout (''Token is valid until '' @ s @ '' UTC''),
                Stdout (if e - time_now env < 24 * 3600
                        then ''Token expires in '' @ str_int (e - time_now env) @ '' seconds''
                        else ''Token expires in ''
                             @ str_int ((e - time_now env) div (24 * 3600)) @ '' days'')],
               Inr (PStr tok)))
       \<and> (e - time_now env \<le> 29 \<longrightarrow> check_token env tok verbose = ([], Inr PNone))"
  using check_token_valid [OF assms] check_token_valid_verbose [OF assms, of s]
    check_token_expired [OF assms, of verbose]
  by (simp add: MIN_ACCESS_TOKEN_TIME_def)

theorem check_token_boundary_witness:
  "jwt_decode example_env ''fresh'' = Some [(''exp'', PInt 1030), (''iss'', PStr ''https://idp'')]
   \<and> 30 \<le> 1030 - time_now example_env
   \<and> check_token example_env ''fresh'' False = ([], Inr (PStr ''fresh''))
   \<and> utc_strftime example_env 1030 = Inr ''1970-01-01 00:17:10''
   \<and> check_token example_env ''fresh'' True
       = ([Stdout ''Token is valid until 1970-01-01 00:17:10 UTC'',
           Stdout ''Token expires in 30 seconds''],
          Inr (PStr ''fresh''))
   \<and> jwt_decode example_env ''stale'' = Some [(''exp'', PInt 1029), (''iss'', PStr ''https://idp'')]
   \<and> 1029 - time_now example_env \<le> 29
   \<and> check_token example_env ''stale'' True = ([], Inr PNone)"
proof -
  have d1: "jwt_decode example_env ''fresh''
      = Some [(''exp'', PInt 1030), (''iss'', PStr ''https://idp'')]"
    by (simp add: example_env_def)
  have m1: "map_of [(''exp'', PInt 1030), (''iss'', PStr ''https://idp'')] ''exp''
      = Some (PInt 1030)"
    by simp
  have i1: "py_int example_env (PInt 1030) = ret 1030"
    by (simp add: py_int_def)
  have d2: "jwt_decode example_env ''stale''
      = Some [(''exp'', PInt 1029), (''iss'', PStr ''https://idp'')]"
    by (simp add: example_env_def)
  have m2: "map_of [(''exp'', PInt 1029), (''iss'', PStr ''https://idp'')] ''exp''
      = Some (PInt 1029)"
    by simp
  have i2: "py_int example_env (PInt 1029) = ret 1029"
    by (simp add: py_int_def)
  have n: "time_now example_env = 1000"
    by (simp add: example_env_def)
  have u: "utc_strftime example_env 1030 = Inr ''1970-01-01 00:17:10''"
    by (simp add: example_env_def)
  have t: "str_int 30 = ''30''"
    by code_simp
  note w1 = check_token_boundary [OF d1 m1 i1, of "''1970-01-01 00:17:10''" False]
  note w2 = check_token_boundary [OF d2 m2 i2, of "[]" True]
  from w1 n have a: "check_token example_env ''fresh'' False = ([], Inr (PStr ''fresh''))"
    by simp
  from w1 n u t have b: "check_token example_env ''fresh'' True
      = ([Stdout ''Token is valid until 1970-01-01 00:17:10 UTC'',
          Stdout ''Token expires in 30 seconds''],
         Inr (PStr ''fresh''))"
    by simp
  from w2 n have c: "check_token example_env ''stale'' True = ([], Inr PNone)"
    by simp
  from d1 n a u b d2 c show ?thesis
    by simp
qed

section \<open>The resolution policy\<close>

lemma py_int_trace: "fst (py_int env v) = []"
  by (cases v) (simp_all add: py_int_def ret_def raise_def split: option.splits)

lemma check_token_trace:
  "set (fst (check_token env tok False)) \<subseteq> {Stderr ''Error: Invalid access token.''}"
proof (cases "jwt_decode env tok")
  case None
  then show ?thesis
    by (simp add: check_token_def decode_token_None bind_run_Inr ret_def)
next
  case (Some p)
  show ?thesis
  proof (cases "map_of p ''exp''")
    case None
    with Some show ?thesis
      by (simp add: check_token_def decode_token_Some subscript_def bind_run_Inr bind_run_Inl
          ret_def raise_def)
  next
    case (Some v)
    obtain r where r: "py_int env v = ([], r)"
      using py_int_trace [of env v] by (cases "py_int env v") simp
    show ?thesis
    proof (cases r)
      case (Inl e)
      with r Some \<open>jwt_decode env tok = Some p\<close> show ?thesis
        by (simp add: check_token_def decode_token_Some subscript_def bind_run_Inr bind_run_Inl
            ret_def)
    next
      case (Inr e)
      with r Some \<open>jwt_decode env tok = Some p\<close> show ?thesis
        by (simp add: check_token_def decode_token_Some subscript_def bind_run_Inr
            print_error_quiet ret_def Let_def)
    qed
  qed
qed

lemma get_access_token_explicit:
  "tok \<noteq> [] \<Longrightarrow> get_access_token env (Some tok) account mytoken server = check_token env tok False"
  by (simp add: get_access_token_def)

text \<open>
  C1. When an explicit access token is given (a non-empty string), the run of
  \<open>get_access_token\<close> is the run of \<open>check_token\<close> on that token, whatever the mytoken
  and agent arguments are; no request goes to the mytoken server and the agent is not
  called; and when the token is valid the result is the very string that was given.
\<close>

theorem explicit_token_priority:
  assumes "tok \<noteq> []"
  shows "get_access_token env (Some tok) account mytoken server = check_token env tok False
       \<and> (\<forall>ev \<in> set (fst (get_access_token env (Some tok) account mytoken server)).
            \<not> contacts_exchange ev \<and> \<not> contacts_agent ev)
       \<and> (jwt_decode env tok = Some p \<and> map_of p ''exp'' = Some v \<and> py_int env v = ret e
            \<and> 30 \<le> e - time_now env
          \<longrightarrow> get_access_token env (Some tok) account mytoken server = ([], Inr (PStr tok)))"
proof -
  have eq: "get_access_token env (Some tok) account mytoken server = check_token env tok False"
    using assms by (rule get_access_token_explicit)
  have quiet: "\<forall>ev \<in> set (fst (check_token env tok False)).
      \<not> contacts_exchange ev \<and> \<not> contacts_agent ev"
    using check_token_trace [of env tok] by auto
  have valid: "check_token env tok False = ([], Inr (PStr tok))"
    if "jwt_decode env tok = Some p" "map_of p ''exp'' = Some v" "py_int env v = ret e"
      "30 \<le> e - time_now env"
    using check_token_valid [of env tok p v e] that by (simp add: MIN_ACCESS_TOKEN_TIME_def)
  from eq quiet valid show ?thesis
    by simp
qed

theorem explicit_token_priority_witness:
  "''fresh'' \<noteq> []
   \<and> get_access_token example_env (Some ''fresh'') (Some ''acct'') (Some ''mt'') (Some ''https://mt'')
       = check_token example_env ''fresh'' False
   \<and> get_access_token example_env (Some ''fresh'') (Some ''acct'') (Some ''mt'') (Some ''https://mt'')
       = ([], Inr (PStr ''fresh''))"
proof -
  have ne: "''fresh'' \<noteq> []"
    by simp
  have d: "jwt_decode example_env ''fresh''
      = Some [(''exp'', PInt 1030), (''iss'', PStr ''https://idp'')]"
    by (simp add: example_env_def)
  have m: "map_of [(''exp'', PInt 1030), (''iss'', PStr ''https://idp'')] ''exp''
      = Some (PInt 1030)"
    by simp
  have i: "py_int example_env (PInt 1030) = ret 1030"
    by (simp add: py_int_def)
  have n: "30 \<le> 1030 - time_now example_env"
    by (simp add: example_env_def)
  note t = explicit_token_priority [OF ne, of example_env "Some ''acct''" "Some ''mt''"
      "Some ''https://mt''" "[(''exp'', PInt 1030), (''iss'', PStr ''https://idp'')]"
      "PInt 1030" 1030]
  from t have a: "get_access_token example_env (Some ''fresh'') (Some ''acct'') (Some ''mt'')
      (Some ''https://mt'') = check_token example_env ''fresh'' False"
    by (rule conjunct1)
  from t d m i n have b: "get_access_token example_env (Some ''fresh'') (Some ''acct'')
      (Some ''mt'') (Some ''https://mt'') = ([], Inr (PStr ''fresh''))"
    by blast
  from ne a b show ?thesis
    by (intro conjI)
qed

text \<open>
  C2. When the explicit token is given but expired (it decodes and its remaining lifetime
  is below 30 seconds) and an agent account is given too, \<open>get_access_token\<close> returns
  \<open>None\<close>; its trace is empty, so the agent is not called and no request is sent.
\<close>

theorem no_fallback_on_expiry:
  assumes "tok \<noteq> []" and "account \<noteq> []"
    and "jwt_decode env tok = Some p" and "map_of p ''exp'' = Some v"
    and "py_int env v = ret e" and "e - time_now env < 30"
  shows "get_access_token env (Some tok) (Some account) mytoken server = ([], Inr PNone)
       \<and> (\<forall>ev \<in> set (fst (get_access_token env (Some tok) (Some account) mytoken server)).
            \<not> contacts_agent ev \<and> \<not> contacts_exchange ev)"
proof -
  have "e - time_now env < MIN_ACCESS_TOKEN_TIME"
    using assms(6) by (simp add: MIN_ACCESS_TOKEN_TIME_def)
  then have "check_token env tok False = ([], Inr PNone)"
    using assms(3-5) by (intro check_token_expired)
  then have "get_access_token env (Some tok) (Some account) mytoken server = ([], Inr PNone)"
    using assms(1) by (simp add: get_access_token_explicit)
  then show ?thesis
    by simp
qed

theorem no_fallback_on_expiry_witness:
  "''stale'' \<noteq> [] \<and> ''acct'' \<noteq> []
   \<and> 1029 - time_now example_env < 30
   \<and> get_token_from_oidc_agent example_env (Some ''acct'')
       = ([AgentCall ''acct'' 30 ''fedcloudclient''], Inr (PStr ''from-agent''))
   \<and> get_access_token example_env (Some ''stale'') (Some ''acct'') None None = ([], Inr PNone)"
proof -
  have ne: "''stale'' \<noteq> []" "''acct'' \<noteq> []"
    by simp_all
  have d: "jwt_decode example_env ''stale''
      = Some [(''exp'', PInt 1029), (''iss'', PStr ''https://idp'')]"
    by (simp add: example_env_def)
  have m: "map_of [(''exp'', PInt 1029), (''iss'', PStr ''https://idp'')] ''exp''
      = Some (PInt 1029)"
    by simp
  have i: "py_int example_env (PInt 1029) = ret 1029"
    by (simp add: py_int_def)
  have n: "1029 - time_now example_env < 30"
    by (simp add: example_env_def)
  have ag: "get_token_from_oidc_agent example_env (Some ''acct'')
      = ([AgentCall ''acct'' 30 ''fedcloudclient''], Inr (PStr ''from-agent''))"
    by (simp add: get_token_from_oidc_agent_def example_env_def MIN_ACCESS_TOKEN_TIME_def
        emit_def ret_def bind_run_Inr)
  from no_fallback_on_expiry [OF ne d m i n, of None None]
  have r: "get_access_token example_env (Some ''stale'') (Some ''acct'') None None
      = ([], Inr PNone)"
    by (rule conjunct1)
  from ne n ag r show ?thesis
    by (intro conjI)
qed

lemma get_access_token_mytoken:
  "\<not> truthy oidc_access_token \<Longrightarrow> mt \<noteq> []
   \<Longrightarrow> get_access_token env oidc_access_token account (Some mt) server
       = get_token_from_mytoken_server env mt server"
  by (simp add: get_access_token_def)

lemma raise_for_status_ok:
  "\<not> (400 \<le> status \<and> status < 600) \<Longrightarrow> raise_for_status (status, body) = ([], Inr ())"
  by (auto simp: raise_for_status_def ret_def)

lemma raise_for_status_error:
  "400 \<le> status \<and> status < 600
   \<Longrightarrow> raise_for_status (status, body) = ([], Inl (HTTPError status))"
  by (simp add: raise_for_status_def raise_def)

lemma exchange_run:
  assumes "requests_post env (srv @ ''/api/v0/token/access'')
      (PDict [(''grant_type'', PStr ''mytoken''), (''mytoken'', PStr mt)]) = Response status body"
  shows "get_token_from_mytoken_server env mt (Some srv) =
     bind_run
       ([HttpPost (srv @ ''/api/v0/token/access'')
           (PDict [(''grant_type'', PStr ''mytoken''), (''mytoken'', PStr mt)])],
        Inr (status, body))
       (\<lambda>req. bind_run (raise_for_status req) (\<lambda>_.
          bind_run (response_json req) (\<lambda>body. dict_get body ''access_token'' PNone)))"
  using assms
  by (simp add: get_token_from_mytoken_server_def str_add_def http_post_def emit_def
      bind_run_Inr ret_def)

lemma exchange_success:
  assumes "requests_post env (srv @ ''/api/v0/token/access'')
      (PDict [(''grant_type'', PStr ''mytoken''), (''mytoken'', PStr mt)])
      = Response status (Some (PDict d))"
    and "\<not> (400 \<le> status \<and> status < 600)"
  shows "get_token_from_mytoken_server env mt (Some srv) =
     ([HttpPost (srv @ ''/api/v0/token/access'')
         (PDict [(''grant_type'', PStr ''mytoken''), (''mytoken'', PStr mt)])],
      Inr (case map_of d ''access_token'' of None \<Rightarrow> PNone | Some x \<Rightarrow> x))"
  by (simp add: exchange_run [OF assms(1)] raise_for_status_ok [OF assms(2)] response_json_def
      dict_get_def bind_run_Inr ret_def)

lemma exchange_http_error:
  assumes "requests_post env (srv @ ''/api/v0/token/access'')
      (PDict [(''grant_type'', PStr ''mytoken''), (''mytoken'', PStr mt)]) = Response status body"
    and "400 \<le> status \<and> status < 600"
  shows "get_token_from_mytoken_server env mt (Some srv) =
     ([HttpPost (srv @ ''/api/v0/token/access'')
         (PDict [(''grant_type'', PStr ''mytoken''), (''mytoken'', PStr mt)])],
      Inl (HTTPError status))"
  by (simp add: exchange_run [OF assms(1)] raise_for_status_error [OF assms(2)] bind_run_Inr
      bind_run_Inl)

text \<open>
  C4. When no explicit token is given and a mytoken is, the run of \<open>get_access_token\<close> is
  the run of the exchange with the mytoken server. Whatever value the server puts in the
  field \<open>access_token\<close> of a response that is not an HTTP error is the result: the
  policy does not pass it through \<open>check_token\<close>.
\<close>

theorem mytoken_unconditional:
  assumes "\<not> truthy oidc_access_token" and "mt \<noteq> []"
  shows "get_access_token env oidc_access_token account (Some mt) server
           = get_token_from_mytoken_server env mt server
       \<and> (server = Some srv
          \<and> requests_post env (srv @ ''/api/v0/token/access'')
               (PDict [(''grant_type'', PStr ''mytoken''), (''mytoken'', PStr mt)])
             = Response status (Some (PDict d))
          \<and> \<not> (400 \<le> status \<and> status < 600) \<and> map_of d ''access_token'' = Some token
          \<longrightarrow> snd (get_access_token env oidc_access_token account (Some mt) server) = Inr token)"
proof -
  have eq: "get_access_token env oidc_access_token account (Some mt) server
      = get_token_from_mytoken_server env mt server"
    using assms by (rule get_access_token_mytoken)
  have "snd (get_token_from_mytoken_server env mt (Some srv)) = Inr token"
    if "requests_post env (srv @ ''/api/v0/token/access'')
          (PDict [(''grant_type'', PStr ''mytoken''), (''mytoken'', PStr mt)])
        = Response status (Some (PDict d))"
      and "\<not> (400 \<le> status \<and> status < 600)" and "map_of d ''access_token'' = Some token"
    using exchange_success [OF that(1,2)] that(3) by simp
  with eq show ?thesis
    by auto
qed

theorem mytoken_unconditional_witness:
  "\<not> truthy None \<and> ''mt'' \<noteq> []
   \<and> check_token example_env ''stale'' False = ([], Inr PNone)
   \<and> snd (get_access_token example_env None (Some ''acct'') (Some ''mt'') (Some ''https://mt''))
       = Inr (PStr ''stale'')"
proof -
  have h: "\<not> truthy None" "''mt'' \<noteq> []"
    by simp_all
  have post: "requests_post example_env (''https://mt'' @ ''/api/v0/token/access'')
      (PDict [(''grant_type'', PStr ''mytoken''), (''mytoken'', PStr ''mt'')])
      = Response 200 (Some (PDict [(''access_token'', PStr ''stale'')]))"
    by (simp add: example_env_def)
  have st: "\<not> (400 \<le> (200::nat) \<and> (200::nat) < 600)"
    by simp
  have m: "map_of [(''access_token'', PStr ''stale'')] ''access_token'' = Some (PStr ''stale'')"
    by simp
  have c: "check_token example_env ''stale'' False = ([], Inr PNone)"
    by (simp add: check_token_def decode_token_def subscript_def py_int_def example_env_def
        MIN_ACCESS_TOKEN_TIME_def print_error_def bind_run_Inr ret_def)
  from mytoken_unconditional [OF h, of example_env "Some ''acct''" "Some ''https://mt''"
      "''https://mt''" 200 "[(''access_token'', PStr ''stale'')]" "PStr ''stale''"] post st m
  have r: "snd (get_access_token example_env None (Some ''acct'') (Some ''mt'')
      (Some ''https://mt'')) = Inr (PStr ''stale'')"
    by blast
  from h c r show ?thesis
    by (intro conjI)
qed

text \<open>
  C5. When none of the three sources is given (each is \<open>None\<close> or the empty string),
  \<open>get_access_token\<close> raises \<open>SystemExit\<close> with a message, which ends the process with
  a status that is not zero; nothing was requested or called before; and the message
  names the three options \<open>--oidc-access-token\<close>, \<open>--oidc-agent-account\<close> and
  \<open>--mytoken\<close>.
\<close>

theorem no_source_fatal:
  assumes "\<not> truthy oidc_access_token" and "\<not> truthy account" and "\<not> truthy mytoken"
  shows "get_access_token env oidc_access_token account mytoken server
           = ([], Inl (SystemExit no_token_message))
       \<and> exit_status (SystemExit no_token_message) \<noteq> 0
       \<and> sublist ''--oidc-access-token'' no_token_message
       \<and> sublist ''--oidc-agent-account'' no_token_message
       \<and> sublist ''--mytoken'' no_token_message"
proof -
  have "get_access_token env oidc_access_token account mytoken server
      = ([], Inl (SystemExit no_token_message))"
    using assms by (simp add: get_access_token_def raise_def)
  moreover have "sublist ''--oidc-access-token'' no_token_message"
    by code_simp
  moreover have "sublist ''--oidc-agent-account'' no_token_message"
    by code_simp
  moreover have "sublist ''--mytoken'' no_token_message"
    by code_simp
  ultimately show ?thesis
    by simp
qed

theorem no_source_fatal_witness:
  "\<not> truthy None \<and> \<not> truthy (Some [])
   \<and> get_access_token example_env None None None None
       = ([], Inl (SystemExit no_token_message))
   \<and> get_access_token example_env (Some []) (Some []) (Some []) (Some ''https://mt'')
       = ([], Inl (SystemExit no_token_message))"
proof -
  have h: "\<not> truthy None" "\<not> truthy (Some [])"
    by simp_all
  from no_source_fatal [OF h(1) h(1) h(1), of example_env None]
  have a: "get_access_token example_env None None None None
      = ([], Inl (SystemExit no_token_message))"
    by (rule conjunct1)
  from no_source_fatal [OF h(2) h(2) h(2), of example_env "Some ''https://mt''"]
  have b: "get_access_token example_env (Some []) (Some []) (Some []) (Some ''https://mt'')
      = ([], Inl (SystemExit no_token_message))"
    by (rule conjunct1)
  from h a b show ?thesis
    by (intro conjI)
qed

section \<open>The exchange with the mytoken server\<close>

lemma exchange_transport_failure:
  assumes "requests_post env (srv @ ''/api/v0/token/access'')
      (PDict [(''grant_type'', PStr ''mytoken''), (''mytoken'', PStr mt)]) = TransportFailed"
  shows "get_token_from_mytoken_server env mt (Some srv) =
     ([HttpPost (srv @ ''/api/v0/token/access'')
         (PDict [(''grant_type'', PStr ''mytoken''), (''mytoken'', PStr mt)])],
      Inl RequestException)"
  using assms
  by (simp add: get_token_from_mytoken_server_def str_add_def http_post_def emit_def
      bind_run_Inr bind_run_Inl ret_def raise_def)

lemma exchange_not_json:
  assumes "requests_post env (srv @ ''/api/v0/token/access'')
      (PDict [(''grant_type'', PStr ''mytoken''), (''mytoken'', PStr mt)]) = Response status None"
    and "\<not> (400 \<le> status \<and> status < 600)"
  shows "get_token_from_mytoken_server env mt (Some srv) =
     ([HttpPost (srv @ ''/api/v0/token/access'')
         (PDict [(''grant_type'', PStr ''mytoken''), (''mytoken'', PStr mt)])],
      Inl JSONDecodeError)"
  by (simp add: exchange_run [OF assms(1)] raise_for_status_ok [OF assms(2)] response_json_def
      bind_run_Inr bind_run_Inl raise_def)

lemma exchange_not_object:
  assumes "requests_post env (srv @ ''/api/v0/token/access'')
      (PDict [(''grant_type'', PStr ''mytoken''), (''mytoken'', PStr mt)])
      = Response status (Some v)"
    and "\<not> (400 \<le> status \<and> status < 600)" and "\<not> is_dict v"
  shows "get_token_from_mytoken_server env mt (Some srv) =
     ([HttpPost (srv @ ''/api/v0/token/access'')
         (PDict [(''grant_type'', PStr ''mytoken''), (''mytoken'', PStr mt)])],
      Inl AttributeError)"
  using assms(3)
  by (cases v)
    (simp_all add: exchange_run [OF assms(1)] raise_for_status_ok [OF assms(2)]
      response_json_def dict_get_def bind_run_Inr bind_run_Inl ret_def raise_def)

lemma exchange_no_server:
  "get_token_from_mytoken_server env mt None = ([], Inl TypeError)"
  by (simp add: get_token_from_mytoken_server_def str_add_def bind_run_Inl raise_def)

lemma exchange_trace:
  "fst (get_token_from_mytoken_server env mt (Some srv)) =
     [HttpPost (srv @ ''/api/v0/token/access'')
        (PDict [(''grant_type'', PStr ''mytoken''), (''mytoken'', PStr mt)])]"
proof (cases "requests_post env (srv @ ''/api/v0/token/access'')
    (PDict [(''grant_type'', PStr ''mytoken''), (''mytoken'', PStr mt)])")
  case TransportFailed
  then show ?thesis
    by (simp add: exchange_transport_failure)
next
  case (Response status body)
  show ?thesis
  proof (cases "400 \<le> status \<and> status < 600")
    case True
    with Response show ?thesis
      by (simp add: exchange_http_error)
  next
    case False
    show ?thesis
    proof (cases body)
      case None
      with Response False show ?thesis
        by (simp add: exchange_not_json)
    next
      case (Some v)
      show ?thesis
      proof (cases "is_dict v")
        case True
        then obtain d where "v = PDict d"
          by (cases v) simp_all
        with Response Some False show ?thesis
          by (simp add: exchange_success)
      next
        case no: False
        from Response Some have "requests_post env (srv @ ''/api/v0/token/access'')
            (PDict [(''grant_type'', PStr ''mytoken''), (''mytoken'', PStr mt)])
            = Response status (Some v)"
          by simp
        from exchange_not_object [OF this False no] show ?thesis
          by simp
      qed
    qed
  qed
qed

text \<open>
  C7, as the specification states it, fails: when the server answers with status 200 and
  a JSON object without the field \<open>access_token\<close>, the exchange does not fail; it returns
  \<open>None\<close>. Nor does it fail on a status that is neither a success nor an error code:
  an answer with status 300 that carries a token gives that token.
\<close>

theorem exchange_missing_field_counterexample:
  "requests_post example_env ''https://bare/api/v0/token/access''
       (PDict [(''grant_type'', PStr ''mytoken''), (''mytoken'', PStr ''mt'')])
     = Response 200 (Some (PDict []))
   \<and> get_token_from_mytoken_server example_env ''mt'' (Some ''https://bare'')
     = ([HttpPost ''https://bare/api/v0/token/access''
           (PDict [(''grant_type'', PStr ''mytoken''), (''mytoken'', PStr ''mt'')])],
        Inr PNone)
   \<and> requests_post example_env ''https://multi/api/v0/token/access''
       (PDict [(''grant_type'', PStr ''mytoken''), (''mytoken'', PStr ''mt'')])
     = Response 300 (Some (PDict [(''access_token'', PStr ''fresh'')]))
   \<and> get_token_from_mytoken_server example_env ''mt'' (Some ''https://multi'')
     = ([HttpPost ''https://multi/api/v0/token/access''
           (PDict [(''grant_type'', PStr ''mytoken''), (''mytoken'', PStr ''mt'')])],
        Inr (PStr ''fresh''))"
  by (simp add: get_token_from_mytoken_server_def str_add_def http_post_def emit_def
      raise_for_status_def response_json_def dict_get_def example_env_def
      bind_run_Inr ret_def)

text \<open>
  C7, amended. With a server given, the exchange sends exactly one request, a POST of
  \<open>{"grant_type": "mytoken", "mytoken": mytoken}\<close> to \<open><server>/api/v0/token/access\<close>,
  and does nothing else to the outside. It fails when the transport fails
  (\<open>RequestException\<close>), when the status is an error status, 400 to 599 (\<open>HTTPError\<close>),
  when the body is not JSON (\<open>JSONDecodeError\<close>) and when the body is JSON but not an
  object (\<open>AttributeError\<close>). When the body is an object it returns the value of the field
  \<open>access_token\<close>, and \<open>None\<close>, without any error, when the field is missing.
\<close>

theorem mytoken_exchange_outcomes:
  "fst (get_token_from_mytoken_server env mt (Some srv))
     = [HttpPost (srv @ ''/api/v0/token/access'')
          (PDict [(''grant_type'', PStr ''mytoken''), (''mytoken'', PStr mt)])]
   \<and> (requests_post env (srv @ ''/api/v0/token/access'')
        (PDict [(''grant_type'', PStr ''mytoken''), (''mytoken'', PStr mt)]) = TransportFailed
     \<longrightarrow> snd (get_token_from_mytoken_server env mt (Some srv)) = Inl RequestException)
   \<and> (requests_post env (srv @ ''/api/v0/token/access'')
        (PDict [(''grant_type'', PStr ''mytoken''), (''mytoken'', PStr mt)]) = Response status body
      \<and> 400 \<le> status \<and> status < 600
     \<longrightarrow> snd (get_token_from_mytoken_server env mt (Some srv)) = Inl (HTTPError status))
   \<and> (requests_post env (srv @ ''/api/v0/token/access'')
        (PDict [(''grant_type'', PStr ''mytoken''), (''mytoken'', PStr mt)]) = Response status None
      \<and> \<not> (400 \<le> status \<and> status < 600)
     \<longrightarrow> snd (get_token_from_mytoken_server env mt (Some srv)) = Inl JSONDecodeError)
   \<and> (requests_post env (srv @ ''/api/v0/token/access'')
        (PDict [(''grant_type'', PStr ''mytoken''), (''mytoken'', PStr mt)])
        = Response status (Some val)
      \<and> \<not> (400 \<le> status \<and> status < 600) \<and> \<not> is_dict val
     \<longrightarrow> snd (get_token_from_mytoken_server env mt (Some srv)) = Inl AttributeError)
   \<and> (requests_post env (srv @ ''/api/v0/token/access'')
        (PDict [(''grant_type'', PStr ''mytoken''), (''mytoken'', PStr mt)])
        = Response status (Some (PDict d))
      \<and> \<not> (400 \<le> status \<and> status < 600) \<and> map_of d ''access_token'' = Some token
     \<longrightarrow> snd (get_token_from_mytoken_server env mt (Some srv)) = Inr token)
   \<and> (requests_post env (srv @ ''/api/v0/token/access'')
        (PDict [(''grant_type'', PStr ''mytoken''), (''mytoken'', PStr mt)])
        = Response status (Some (PDict d))
      \<and> \<not> (400 \<le> status \<and> status < 600) \<and> map_of d ''access_token'' = None
     \<longrightarrow> snd (get_token_from_mytoken_server env mt (Some srv)) = Inr PNone)"
proof (intro conjI impI)
  show "fst (get_token_from_mytoken_server env mt (Some srv))
      = [HttpPost (srv @ ''/api/v0/token/access'')
           (PDict [(''grant_type'', PStr ''mytoken''), (''mytoken'', PStr mt)])]"
    by (rule exchange_trace)
next
  assume "requests_post env (srv @ ''/api/v0/token/access'')
      (PDict [(''grant_type'', PStr ''mytoken''), (''mytoken'', PStr mt)]) = TransportFailed"
  then show "snd (get_token_from_mytoken_server env mt (Some srv)) = Inl RequestException"
    by (simp add: exchange_transport_failure)
next
  assume "requests_post env (srv @ ''/api/v0/token/access'')
      (PDict [(''grant_type'', PStr ''mytoken''), (''mytoken'', PStr mt)]) = Response status body
    \<and> 400 \<le> status \<and> status < 600"
  then show "snd (get_token_from_mytoken_server env mt (Some srv)) = Inl (HTTPError status)"
    using exchange_http_error [of env srv mt status body] by simp
next
  assume "requests_post env (srv @ ''/api/v0/token/access'')
      (PDict [(''grant_type'', PStr ''mytoken''), (''mytoken'', PStr mt)]) = Response status None
    \<and> \<not> (400 \<le> status \<and> status < 600)"
  then show "snd (get_token_from_mytoken_server env mt (Some srv)) = Inl JSONDecodeError"
    using exchange_not_json [of env srv mt status] by simp
next
  assume "requests_post env (srv @ ''/api/v0/token/access'')
      (PDict [(''grant_type'', PStr ''mytoken''), (''mytoken'', PStr mt)])
      = Response status (Some val)
    \<and> \<not> (400 \<le> status \<and> status < 600) \<and> \<not> is_dict val"
  then show "snd (get_token_from_mytoken_server env mt (Some srv)) = Inl AttributeError"
    using exchange_not_object [of env srv mt status val] by simp
next
  assume "requests_post env (srv @ ''/api/v0/token/access'')
      (PDict [(''grant_type'', PStr ''mytoken''), (''mytoken'', PStr mt)])
      = Response status (Some (PDict d))
    \<and> \<not> (400 \<le> status \<and> status < 600) \<and> map_of d ''access_token'' = Some token"
  then show "snd (get_token_from_mytoken_server env mt (Some srv)) = Inr token"
    using exchange_success [of env srv mt status d] by simp
next
  assume "requests_post env (srv @ ''/api/v0/token/access'')
      (PDict [(''grant_type'', PStr ''mytoken''), (''mytoken'', PStr mt)])
      = Response status (Some (PDict d))
    \<and> \<not> (400 \<le> status \<and> status < 600) \<and> map_of d ''access_token'' = None"
  then show "snd (get_token_from_mytoken_server env mt (Some srv)) = Inr PNone"
    using exchange_success [of env srv mt status d] by simp
qed

theorem mytoken_exchange_outcomes_witness:
  "get_token_from_mytoken_server example_env ''mt'' (Some ''https://nowhere'')
     = ([HttpPost ''https://nowhere/api/v0/token/access''
           (PDict [(''grant_type'', PStr ''mytoken''), (''mytoken'', PStr ''mt'')])],
        Inl RequestException)
   \<and> snd (get_token_from_mytoken_server example_env ''mt'' (Some ''https://down''))
     = Inl (HTTPError 500)
   \<and> snd (get_token_from_mytoken_server example_env ''mt'' (Some ''https://page''))
     = Inl JSONDecodeError
   \<and> snd (get_token_from_mytoken_server example_env ''mt'' (Some ''https://list''))
     = Inl AttributeError
   \<and> get_token_from_mytoken_server example_env ''mt'' (Some ''https://mt'')
     = ([HttpPost ''https://mt/api/v0/token/access''
           (PDict [(''grant_type'', PStr ''mytoken''), (''mytoken'', PStr ''mt'')])],
        Inr (PStr ''stale''))
   \<and> snd (get_token_from_mytoken_server example_env ''mt'' (Some ''https://bare''))
     = Inr PNone"
proof -
  have p1: "requests_post example_env (''https://nowhere'' @ ''/api/v0/token/access'')
      (PDict [(''grant_type'', PStr ''mytoken''), (''mytoken'', PStr ''mt'')]) = TransportFailed"
    by (simp add: example_env_def)
  have p2: "requests_post example_env (''https://down'' @ ''/api/v0/token/access'')
      (PDict [(''grant_type'', PStr ''mytoken''), (''mytoken'', PStr ''mt'')])
      = Response 500 None \<and> (400::nat) \<le> 500 \<and> (500::nat) < 600"
    by (simp add: example_env_def)
  have p3: "requests_post example_env (''https://mt'' @ ''/api/v0/token/access'')
      (PDict [(''grant_type'', PStr ''mytoken''), (''mytoken'', PStr ''mt'')])
      = Response 200 (Some (PDict [(''access_token'', PStr ''stale'')]))
      \<and> \<not> ((400::nat) \<le> 200 \<and> (200::nat) < 600)
      \<and> map_of [(''access_token'', PStr ''stale'')] ''access_token'' = Some (PStr ''stale'')"
    by (simp add: example_env_def)
  have p4: "requests_post example_env (''https://bare'' @ ''/api/v0/token/access'')
      (PDict [(''grant_type'', PStr ''mytoken''), (''mytoken'', PStr ''mt'')])
      = Response 200 (Some (PDict []))
      \<and> \<not> ((400::nat) \<le> 200 \<and> (200::nat) < 600)
      \<and> map_of ([]::(string \<times> pyval) list) ''access_token'' = None"
    by (simp add: example_env_def)
  have p5: "requests_post example_env (''https://page'' @ ''/api/v0/token/access'')
      (PDict [(''grant_type'', PStr ''mytoken''), (''mytoken'', PStr ''mt'')])
      = Response 200 None \<and> \<not> ((400::nat) \<le> 200 \<and> (200::nat) < 600)"
    by (simp add: example_env_def)
  have p6: "requests_post example_env (''https://list'' @ ''/api/v0/token/access'')
      (PDict [(''grant_type'', PStr ''mytoken''), (''mytoken'', PStr ''mt'')])
      = Response 200 (Some (PList []))
      \<and> \<not> ((400::nat) \<le> 200 \<and> (200::nat) < 600) \<and> \<not> is_dict (PList [])"
    by (simp add: example_env_def)
  note t1 = mytoken_exchange_outcomes [of example_env "''mt''" "''https://nowhere''"]
  note t2 = mytoken_exchange_outcomes [of example_env "''mt''" "''https://down''" 500 None]
  note t3 = mytoken_exchange_outcomes [of example_env "''mt''" "''https://mt''" 200 _ _
      "[(''access_token'', PStr ''stale'')]" "PStr ''stale''"]
  note t4 = mytoken_exchange_outcomes [of example_env "''mt''" "''https://bare''" 200 _ _ "[]"]
  note t5 = mytoken_exchange_outcomes [of example_env "''mt''" "''https://page''" 200]
  note t6 = mytoken_exchange_outcomes [of example_env "''mt''" "''https://list''" 200 _ "PList []"]
  from t1 p1 have "fst (get_token_from_mytoken_server example_env ''mt'' (Some ''https://nowhere''))
      = [HttpPost (''https://nowhere'' @ ''/api/v0/token/access'')
           (PDict [(''grant_type'', PStr ''mytoken''), (''mytoken'', PStr ''mt'')])]
    \<and> snd (get_token_from_mytoken_server example_env ''mt'' (Some ''https://nowhere''))
      = Inl RequestException"
    by blast
  then have a: "get_token_from_mytoken_server example_env ''mt'' (Some ''https://nowhere'')
      = ([HttpPost ''https://nowhere/api/v0/token/access''
            (PDict [(''grant_type'', PStr ''mytoken''), (''mytoken'', PStr ''mt'')])],
         Inl RequestException)"
    by (simp add: prod_eq_iff)
  from t2 p2 have b: "snd (get_token_from_mytoken_server example_env ''mt'' (Some ''https://down''))
      = Inl (HTTPError 500)"
    by blast
  from t5 p5 have c: "snd (get_token_from_mytoken_server example_env ''mt'' (Some ''https://page''))
      = Inl JSONDecodeError"
    by blast
  from t6 p6 have d: "snd (get_token_from_mytoken_server example_env ''mt'' (Some ''https://list''))
      = Inl AttributeError"
    by blast
  from t3 p3 have "fst (get_token_from_mytoken_server example_env ''mt'' (Some ''https://mt''))
      = [HttpPost (''https://mt'' @ ''/api/v0/token/access'')
           (PDict [(''grant_type'', PStr ''mytoken''), (''mytoken'', PStr ''mt'')])]
    \<and> snd (get_token_from_mytoken_server example_env ''mt'' (Some ''https://mt''))
      = Inr (PStr ''stale'')"
    by blast
  then have e: "get_token_from_mytoken_server example_env ''mt'' (Some ''https://mt'')
      = ([HttpPost ''https://mt/api/v0/token/access''
            (PDict [(''grant_type'', PStr ''mytoken''), (''mytoken'', PStr ''mt'')])],
         Inr (PStr ''stale''))"
    by (simp add: prod_eq_iff)
  from t4 p4 have f: "snd (get_token_from_mytoken_server example_env ''mt'' (Some ''https://bare''))
      = Inr PNone"
    by blast
  from a b c d e f show ?thesis
    by (intro conjI)
qed

section \<open>Decoding and the report of errors\<close>

lemma check_token_malformed:
  "jwt_decode env tok = None
   \<Longrightarrow> check_token env tok verbose = ([Stderr ''Error: Invalid access token.''], Inr PNone)"
  by (simp add: check_token_def decode_token_None bind_run_Inr ret_def)

text \<open>
  C8, as the specification states it, fails: \<open>check_token\<close> has no flag that turns the
  report of an error on or off. For the expired token \<open>stale\<close> nothing reaches stderr in
  either mode, and for a token that does not decode the message reaches stderr in either
  mode.
\<close>

theorem quiet_flag_counterexample:
  "check_token example_env ''stale'' False = ([], Inr PNone)
   \<and> check_token example_env ''stale'' True = ([], Inr PNone)
   \<and> check_token example_env ''garbage'' False
     = ([Stderr ''Error: Invalid access token.''], Inr PNone)
   \<and> check_token example_env ''garbage'' True
     = ([Stderr ''Error: Invalid access token.''], Inr PNone)"
  by (simp add: check_token_def decode_token_def subscript_def py_int_def print_error_def
      example_env_def MIN_ACCESS_TOKEN_TIME_def emit_def bind_run_Inr ret_def)

text \<open>
  C8, amended. \<open>print_error\<close> prints its message to stderr when its argument \<open>quiet\<close>
  is false, prints nothing when it is true, and never raises. \<open>check_token\<close> raises for
  neither condition and returns \<open>None\<close> for both, and the flag is fixed where
  \<open>print_error\<close> is called: for a token that does not decode, the message
  \<open>Error: Invalid access token.\<close> is always printed to stderr; for a token that decodes
  and has less than 30 seconds left, nothing is printed. A token with 30 seconds or more
  is returned, so the silent \<open>None\<close> is the answer to the expiry.
\<close>

theorem error_reporting_fixed_flags:
  "print_error message quiet = (if quiet then [] else [Stderr message], Inr ())
   \<and> (jwt_decode env tok = None
     \<longrightarrow> check_token env tok verbose = ([Stderr ''Error: Invalid access token.''], Inr PNone))
   \<and> (jwt_decode env tok = Some p \<and> map_of p ''exp'' = Some v \<and> py_int env v = ret e
        \<and> e - time_now env < 30
     \<longrightarrow> check_token env tok verbose = ([], Inr PNone))
   \<and> (jwt_decode env tok = Some p \<and> map_of p ''exp'' = Some v \<and> py_int env v = ret e
        \<and> 30 \<le> e - time_now env
     \<longrightarrow> check_token env tok False = ([], Inr (PStr tok)))"
proof (intro conjI impI)
  show "print_error message quiet = (if quiet then [] else [Stderr message], Inr ())"
    by (simp add: print_error_def emit_def ret_def)
next
  assume "jwt_decode env tok = None"
  then show "check_token env tok verbose = ([Stderr ''Error: Invalid access token.''], Inr PNone)"
    by (rule check_token_malformed)
next
  assume "jwt_decode env tok = Some p \<and> map_of p ''exp'' = Some v \<and> py_int env v = ret e
    \<and> e - time_now env < 30"
  then show "check_token env tok verbose = ([], Inr PNone)"
    using check_token_expired [of env tok p v e verbose] by (simp add: MIN_ACCESS_TOKEN_TIME_def)
next
  assume "jwt_decode env tok = Some p \<and> map_of p ''exp'' = Some v \<and> py_int env v = ret e
    \<and> 30 \<le> e - time_now env"
  then show "check_token env tok False = ([], Inr (PStr tok))"
    using check_token_valid [of env tok p v e] by (simp add: MIN_ACCESS_TOKEN_TIME_def)
qed

theorem error_reporting_fixed_flags_witness:
  "print_error ''Error: Expired access token.'' True = ([], Inr ())
   \<and> print_error ''Error: Invalid access token.'' False
     = ([Stderr ''Error: Invalid access token.''], Inr ())
   \<and> jwt_decode example_env ''garbage'' = None
   \<and> check_token example_env ''garbage'' True = ([Stderr ''Error: Invalid access token.''], Inr PNone)
   \<and> 1029 - time_now example_env < 30
   \<and> check_token example_env ''stale'' True = ([], Inr PNone)
   \<and> 30 \<le> 1030 - time_now example_env
   \<and> check_token example_env ''fresh'' False = ([], Inr (PStr ''fresh''))"
proof -
  have g: "jwt_decode example_env ''garbage'' = None"
    by (simp add: example_env_def)
  have d: "jwt_decode example_env ''stale''
      = Some [(''exp'', PInt 1029), (''iss'', PStr ''https://idp'')]
    \<and> map_of [(''exp'', PInt 1029), (''iss'', PStr ''https://idp'')] ''exp'' = Some (PInt 1029)
    \<and> py_int example_env (PInt 1029) = ret 1029"
    by (simp add: example_env_def py_int_def)
  have n: "1029 - time_now example_env < 30"
    by (simp add: example_env_def)
  have d': "jwt_decode example_env ''fresh''
      = Some [(''exp'', PInt 1030), (''iss'', PStr ''https://idp'')]
    \<and> map_of [(''exp'', PInt 1030), (''iss'', PStr ''https://idp'')] ''exp'' = Some (PInt 1030)
    \<and> py_int example_env (PInt 1030) = ret 1030"
    by (simp add: example_env_def py_int_def)
  have n': "30 \<le> 1030 - time_now example_env"
    by (simp add: example_env_def)
  from error_reporting_fixed_flags [of "''Error: Expired access token.''" True]
  have q: "print_error ''Error: Expired access token.'' True = ([], Inr ())"
    by simp
  from error_reporting_fixed_flags [of "''Error: Invalid access token.''" False]
  have l: "print_error ''Error: Invalid access token.'' False
      = ([Stderr ''Error: Invalid access token.''], Inr ())"
    by simp
  from error_reporting_fixed_flags [of _ _ example_env "''garbage''" True] g
  have a: "check_token example_env ''garbage'' True
      = ([Stderr ''Error: Invalid access token.''], Inr PNone)"
    by blast
  from error_reporting_fixed_flags [of _ _ example_env "''stale''" True
      "[(''exp'', PInt 1029), (''iss'', PStr ''https://idp'')]" "PInt 1029" 1029] d n
  have b: "check_token example_env ''stale'' True = ([], Inr PNone)"
    by blast
  from error_reporting_fixed_flags [of _ _ example_env "''fresh''" _
      "[(''exp'', PInt 1030), (''iss'', PStr ''https://idp'')]" "PInt 1030" 1030] d' n'
  have c: "check_token example_env ''fresh'' False = ([], Inr (PStr ''fresh''))"
    by blast
  from q l g a n b n' c show ?thesis
    by (intro conjI)
qed

text \<open>
  The run of \<open>decode_token\<close> is fixed by the answer of the library for the token:
  \<open>None\<close> after the message on stderr when the library raises \<open>InvalidTokenError\<close>, the
  payload and no output when it returns one.
\<close>

lemma decode_token_run:
  "decode_token env tok =
     (case jwt_decode env tok of
        None \<Rightarrow> ([Stderr ''Error: Invalid access token.''], Inr None)
      | Some p \<Rightarrow> ([], Inr (Some p)))"
  by (cases "jwt_decode env tok") (simp_all add: decode_token_None decode_token_Some ret_def)

section \<open>Inputs the functions do not guard against\<close>

lemma token_list_vos_undecodable:
  "jwt_decode env tok = None
   \<Longrightarrow> token_list_vos env tok = ([Stderr ''Error: Invalid access token.''], Inl TypeError)"
  by (simp add: token_list_vos_def decode_token_None bind_run_Inr bind_run_Inl raise_def)

lemma token_list_vos_no_issuer:
  "jwt_decode env tok = Some p \<Longrightarrow> map_of p ''iss'' = None
   \<Longrightarrow> token_list_vos env tok = ([], Inl (KeyError ''iss''))"
  by (simp add: token_list_vos_def decode_token_Some subscript_def bind_run_Inr bind_run_Inl
      ret_def raise_def)

lemma check_token_no_expiry:
  "jwt_decode env tok = Some p \<Longrightarrow> map_of p ''exp'' = None
   \<Longrightarrow> check_token env tok verbose = ([], Inl (KeyError ''exp''))"
  by (simp add: check_token_def decode_token_Some subscript_def bind_run_Inr bind_run_Inl
      ret_def raise_def)

text \<open>
  C10. On a token that does not decode, \<open>token_list_vos\<close> ends with a \<open>TypeError\<close> (it
  subscripts the \<open>None\<close> that \<open>decode_token\<close> returned, after the error message of
  \<open>decode_token\<close>); on a token whose payload has no \<open>iss\<close> it ends with a \<open>KeyError\<close>;
  and \<open>check_token\<close> ends with a \<open>KeyError\<close> on a token whose payload has no \<open>exp\<close>.
\<close>

theorem unguarded_faults:
  "(jwt_decode env tok = None
     \<longrightarrow> token_list_vos env tok = ([Stderr ''Error: Invalid access token.''], Inl TypeError))
   \<and> (jwt_decode env tok = Some p \<and> map_of p ''iss'' = None
     \<longrightarrow> token_list_vos env tok = ([], Inl (KeyError ''iss'')))
   \<and> (jwt_decode env tok = Some p \<and> map_of p ''exp'' = None
     \<longrightarrow> check_token env tok verbose = ([], Inl (KeyError ''exp'')))"
  using token_list_vos_undecodable [of env tok] token_list_vos_no_issuer [of env tok p]
    check_token_no_expiry [of env tok p verbose]
  by blast

theorem unguarded_faults_witness:
  "jwt_decode example_env ''garbage'' = None
   \<and> token_list_vos example_env ''garbage''
     = ([Stderr ''Error: Invalid access token.''], Inl TypeError)
   \<and> jwt_decode example_env ''noexp'' = Some [(''sub'', PStr ''user'')]
   \<and> token_list_vos example_env ''noexp'' = ([], Inl (KeyError ''iss''))
   \<and> check_token example_env ''noexp'' False = ([], Inl (KeyError ''exp''))"
proof -
  have g: "jwt_decode example_env ''garbage'' = None"
    by (simp add: example_env_def)
  have d: "jwt_decode example_env ''noexp'' = Some [(''sub'', PStr ''user'')]"
    by (simp add: example_env_def)
  have m: "map_of [(''sub'', PStr ''user'')] ''iss'' = None"
    "map_of [(''sub'', PStr ''user'')] ''exp'' = None"
    by simp_all
  from unguarded_faults [of example_env "''garbage''"] g
  have a: "token_list_vos example_env ''garbage''
      = ([Stderr ''Error: Invalid access token.''], Inl TypeError)"
    by blast
  from unguarded_faults [of example_env "''noexp''" "[(''sub'', PStr ''user'')]" False] d m
  have b: "token_list_vos example_env ''noexp'' = ([], Inl (KeyError ''iss''))"
    and c: "check_token example_env ''noexp'' False = ([], Inl (KeyError ''exp''))"
    by blast+
  from g a d b c show ?thesis
    by (intro conjI)
qed

section \<open>The VOs of a token\<close>

text \<open>
  The equations of \<open>matches\<close> for the two stars rewrite their own right-hand sides, so
  they are applied by hand.
\<close>

declare matches.simps [simp del]

lemma matches_Cat: "st' \<in> set (matches (Cat a b) st) \<longleftrightarrow> (\<exists>m \<in> set (matches a st). st' \<in> set (matches b m))"
  by (simp add: matches.simps(4))

lemma matches_Star:
  "st' \<in> set (matches (Star r) st) \<longleftrightarrow>
     st' = st \<or> (\<exists>m \<in> set (matches r st). length (fst m) < length (fst st) \<and> st' \<in> set (matches (Star r) m))"
  by (subst matches.simps(6)) (auto split: if_splits)

lemma matches_LazyStar:
  "st' \<in> set (matches (LazyStar r) st) \<longleftrightarrow>
     st' = st \<or> (\<exists>m \<in> set (matches r st). length (fst m) < length (fst st) \<and> st' \<in> set (matches (LazyStar r) m))"
  by (subst matches.simps(7)) (auto split: if_splits)

lemma matches_keeps:
  "st' \<in> set (matches r st) \<Longrightarrow> snd st n \<noteq> None \<Longrightarrow> snd st' n \<noteq> None"
proof (induction r st arbitrary: st' rule: matches.induct)
  case (1 st)
  then show ?case by (simp add: matches.simps(1))
next
  case (2 c st)
  then show ?case by (auto simp: matches.simps(2) split: list.splits if_splits)
next
  case (3 st)
  then show ?case by (auto simp: matches.simps(3) split: list.splits if_splits)
next
  case (4 r1 r2 st)
  from "4.prems"(1) obtain m where m: "m \<in> set (matches r1 st)" "st' \<in> set (matches r2 m)"
    unfolding matches_Cat by blast
  from "4.IH"(1) [OF m(1) "4.prems"(2)] have "snd m n \<noteq> None" .
  with "4.IH"(2) [OF m(1) m(2)] show ?case .
next
  case (5 k r st)
  then show ?case by (auto simp: matches.simps(5))
next
  case (6 r st)
  from "6.prems"(1) show ?case
    unfolding matches_Star [of st' r st] using "6.IH" "6.prems"(2) by blast
next
  case (7 r st)
  from "7.prems"(1) show ?case
    unfolding matches_LazyStar [of st' r st] using "7.IH" "7.prems"(2) by blast
qed



lemma matches_Group_sets: "m \<in> set (matches (Group n r) st) \<Longrightarrow> snd m n \<noteq> None"
  by (auto simp: matches.simps(5))

lemma VO_PATTERN_group:
  assumes "st \<in> set (matches VO_PATTERN st0)"
  shows "snd st 1 \<noteq> None"
proof -
  from assms obtain m1 where
    "st \<in> set (matches (Cat (Group 1 (Cat Dot (LazyStar Dot)))
      (Cat (Lit CHR '':'')
      (Cat (Star (Group 2 (Cat (Cat Dot (Star Dot)) (Lit CHR '':''))))
           (atoms ''role=member#aai.egi.eu'')))) m1)"
    unfolding VO_PATTERN_def matches_Cat [of st "atoms ''urn:mace:egi.eu:group:''"] by blast
  then obtain m2 where m2: "m2 \<in> set (matches (Group 1 (Cat Dot (LazyStar Dot))) m1)"
    and rest: "st \<in> set (matches (Cat (Lit CHR '':'')
      (Cat (Star (Group 2 (Cat (Cat Dot (Star Dot)) (Lit CHR '':''))))
           (atoms ''role=member#aai.egi.eu''))) m2)"
    unfolding matches_Cat [of st "Group 1 (Cat Dot (LazyStar Dot))"] by blast
  from m2 have "snd m2 1 \<noteq> None"
    by (rule matches_Group_sets)
  with rest show ?thesis
    by (rule matches_keeps)
qed


lemma re_match_group:
  assumes "re_match VO_PATTERN s = Some groups"
  shows "groups 1 \<noteq> None"
proof -
  from assms obtain st where "st \<in> set (matches VO_PATTERN (s, Map.empty))" "groups = snd st"
    by (auto simp: re_match_def split: list.splits)
  then show ?thesis
    using VO_PATTERN_group by blast
qed

lemma vos_loop_strings:
  "vos_loop (map PStr es) vos
     = ret (vos \<union> (\<lambda>groups. groups 1) ` (\<Union>e \<in> set es. set_option (re_match VO_PATTERN e)))"
proof (induction es arbitrary: vos)
  case Nil
  show ?case by simp
next
  case (Cons e es)
  show ?case
  proof (cases "re_match VO_PATTERN e")
    case None
    then show ?thesis by (simp add: Cons.IH)
  next
    case (Some groups)
    then show ?thesis by (simp add: Cons.IH)
  qed
qed


lemma vo_hits:
  "(\<lambda>groups. groups 1) ` (\<Union>e \<in> set es. set_option (re_match VO_PATTERN e))
     = Some ` {g. \<exists>e \<in> set es. vo_of e = Some g}"
proof (intro set_eqI iffI)
  fix x assume "x \<in> (\<lambda>groups. groups 1) ` (\<Union>e \<in> set es. set_option (re_match VO_PATTERN e))"
  then obtain e groups where e: "e \<in> set es" "re_match VO_PATTERN e = Some groups" "x = groups 1"
    by auto
  with re_match_group [of e groups] obtain g where g: "groups 1 = Some g" by auto
  with e have "vo_of e = Some g"
    by (simp add: vo_of_def)
  with e g show "x \<in> Some ` {g. \<exists>e \<in> set es. vo_of e = Some g}"
    by blast
next
  fix x assume "x \<in> Some ` {g. \<exists>e \<in> set es. vo_of e = Some g}"
  then obtain g e where x: "x = Some g" "e \<in> set es" "vo_of e = Some g" by auto
  then obtain groups where "re_match VO_PATTERN e = Some groups" "groups 1 = Some g"
    by (auto simp: vo_of_def split: option.splits)
  with x show "x \<in> (\<lambda>groups. groups 1) ` (\<Union>e \<in> set es. set_option (re_match VO_PATTERN e))"
    by (intro image_eqI [of _ _ groups]) auto
qed

lemma finite_vo_names: "finite {g. \<exists>e \<in> set es. vo_of e = Some g}"
proof -
  have "{g. \<exists>e \<in> set es. vo_of e = Some g} = (\<Union>e \<in> set es. set_option (vo_of e))"
    by auto
  then show ?thesis by simp
qed

lemma sorted_list_of_set_Some:
  assumes "finite N"
  shows "sorted_list_of_set (Some ` N) = map Some (sorted_list_of_set N)"
proof -
  have "sorted (map Some (sorted_list_of_set N))"
    by (simp add: sorted_map)
  moreover have "distinct (map Some (sorted_list_of_set N))"
    by (simp add: distinct_map)
  moreover have "set (map Some (sorted_list_of_set N)) = Some ` N"
    using assms by simp
  ultimately show ?thesis
    using sorted_list_of_set.idem_if_sorted_distinct [of "map Some (sorted_list_of_set N)"]
    by simp
qed

lemma py_sorted_names:
  "finite N \<Longrightarrow> py_sorted (Some ` N) = ret (map Some (sorted_list_of_set N))"
  by (auto simp: py_sorted_def sorted_list_of_set_Some)


lemma http_get_ok:
  "requests_get env u headers = Response status body
   \<Longrightarrow> http_get env (PStr u) headers = ([HttpGet u headers], Inr (status, body))"
  by (simp add: http_get_def emit_def bind_run_Inr ret_def)

lemma oidc_discover_ok:
  assumes "requests_get env (issuer @ ''/.well-known/openid-configuration'') []
      = Response status (Some cfg)"
    and "\<not> (400 \<le> status \<and> status < 600)"
  shows "oidc_discover env (PStr issuer)
     = ([HttpGet (issuer @ ''/.well-known/openid-configuration'') []], Inr cfg)"
  by (simp add: oidc_discover_def str_add_def http_get_ok [OF assms(1)]
      raise_for_status_ok [OF assms(2)] response_json_def bind_run_Inr ret_def)

lemma token_list_vos_run:
  assumes "jwt_decode env tok = Some p" and "map_of p ''iss'' = Some (PStr issuer)"
    and "requests_get env (issuer @ ''/.well-known/openid-configuration'') []
      = Response s1 (Some (PDict ep))"
    and "\<not> (400 \<le> s1 \<and> s1 < 600)"
    and "map_of ep ''userinfo_endpoint'' = Some (PStr endpoint)"
    and "requests_get env endpoint [(''Authorization'', ''Bearer '' @ tok)]
      = Response s2 (Some (PDict userinfo))"
    and "\<not> (400 \<le> s2 \<and> s2 < 600)"
    and "map_of userinfo ''eduperson_entitlement'' = Some (PList (map PStr es))"
  shows "token_list_vos env tok =
     ([HttpGet (issuer @ ''/.well-known/openid-configuration'') [],
       HttpGet endpoint [(''Authorization'', ''Bearer '' @ tok)]],
      Inr (map Some (sorted_list_of_set {g. \<exists>e \<in> set es. vo_of e = Some g})))"
proof -
  have loop: "vos_loop (map PStr es) {} = ([], Inr (Some ` {g. \<exists>e \<in> set es. vo_of e = Some g}))"
    unfolding vos_loop_strings vo_hits by (simp add: ret_def)
  have srt: "py_sorted (Some ` {g. \<exists>e \<in> set es. vo_of e = Some g})
      = ([], Inr (map Some (sorted_list_of_set {g. \<exists>e \<in> set es. vo_of e = Some g})))"
    by (simp add: py_sorted_names [OF finite_vo_names] ret_def)
  show ?thesis
    unfolding token_list_vos_def
    by (simp add: decode_token_Some [OF assms(1)] subscript_def assms(2)
        oidc_discover_ok [OF assms(3,4)] subscript_val_def assms(5)
        http_get_ok [OF assms(6), simplified] raise_for_status_ok [OF assms(7)] response_json_def
        dict_get_def assms(8) py_iter_def loop srt bind_run_Inr ret_def)
qed

text \<open>
  Some entitlements. The match is anchored at the start only, and the dots of the pattern
  stand for any character, as the last two show.
\<close>

lemma vo_of_example:
  "vo_of ''urn:mace:egi.eu:group:vo.example.eu:role=member#aai.egi.eu'' = Some ''vo.example.eu''"
  "vo_of ''urn:mace:egi.eu:group:vo.example.eu:role=manager#aai.egi.eu'' = None"
  "vo_of ''not-a-matching-string'' = None"
  "vo_of ''urn:mace:egi.eu:group:vo.other.eu:role=member#aai.egi.eu'' = Some ''vo.other.eu''"
  "vo_of ''urn:mace:egi.eu:group:vo.example.eu:admins:role=member#aai.egi.eu''
     = Some ''vo.example.eu''"
  "vo_of ''urn:mace:egi.eu:group:vo.example.eu:role=member#aai.egi.eu and more''
     = Some ''vo.example.eu''"
  "vo_of ''urn:mace:egi-eu:group:vo.example.eu:role=member#aai-egi-eu'' = Some ''vo.example.eu''"
  by code_simp+

text \<open>
  When the token decodes, the two requests succeed and the claim
  \<open>eduperson_entitlement\<close> is a list of strings, \<open>token_list_vos\<close> returns the sorted
  list, without duplicates, of the first groups of the strings that \<open>VO_PATTERN\<close>
  accepts; a string it does not accept adds nothing and raises nothing.
\<close>

theorem vo_extraction:
  assumes "jwt_decode env tok = Some p" and "map_of p ''iss'' = Some (PStr issuer)"
    and "requests_get env (issuer @ ''/.well-known/openid-configuration'') []
      = Response s1 (Some (PDict ep))"
    and "\<not> (400 \<le> s1 \<and> s1 < 600)"
    and "map_of ep ''userinfo_endpoint'' = Some (PStr endpoint)"
    and "requests_get env endpoint [(''Authorization'', ''Bearer '' @ tok)]
      = Response s2 (Some (PDict userinfo))"
    and "\<not> (400 \<le> s2 \<and> s2 < 600)"
    and "map_of userinfo ''eduperson_entitlement'' = Some (PList (map PStr es))"
  shows "\<exists>names. snd (token_list_vos env tok) = Inr (map Some names)
       \<and> sorted names \<and> distinct names
       \<and> set names = {g. \<exists>e \<in> set es. vo_of e = Some g}
       \<and> names = sorted_list_of_set {g. \<exists>e \<in> set es. vo_of e = Some g}"
  using token_list_vos_run [OF assms] finite_vo_names [of es]
  by simp

theorem vo_extraction_witness:
  "snd (token_list_vos example_env ''fresh'') = Inr [Some ''vo.example.eu'']
   \<and> snd (token_list_vos example_env ''second'') = Inr [Some ''vo.example.eu'', Some ''vo.other.eu'']"
proof -
  have a1: "jwt_decode example_env ''fresh''
      = Some [(''exp'', PInt 1030), (''iss'', PStr ''https://idp'')]"
    and a2: "map_of [(''exp'', PInt 1030), (''iss'', PStr ''https://idp'')] ''iss''
      = Some (PStr ''https://idp'')"
    and a3: "requests_get example_env (''https://idp'' @ ''/.well-known/openid-configuration'') []
      = Response 200 (Some (PDict [(''userinfo_endpoint'', PStr ''https://idp/userinfo'')]))"
    and a4: "\<not> ((400::nat) \<le> 200 \<and> (200::nat) < 600)"
    and a5: "map_of [(''userinfo_endpoint'', PStr ''https://idp/userinfo'')] ''userinfo_endpoint''
      = Some (PStr ''https://idp/userinfo'')"
    and a6: "requests_get example_env ''https://idp/userinfo''
        [(''Authorization'', ''Bearer '' @ ''fresh'')]
      = Response 200
          (Some (PDict [(''eduperson_entitlement'', PList (map PStr example_entitlements))]))"
    and a8: "map_of [(''eduperson_entitlement'', PList (map PStr example_entitlements))]
        ''eduperson_entitlement'' = Some (PList (map PStr example_entitlements))"
    by (simp_all add: example_env_def)
  have s1: "{g. \<exists>e \<in> set example_entitlements. vo_of e = Some g} = {''vo.example.eu''}"
    by (auto simp: example_entitlements_def vo_of_example)
  from vo_extraction [OF a1 a2 a3 a4 a5 a6 a4 a8]
  have r1: "snd (token_list_vos example_env ''fresh'') = Inr [Some ''vo.example.eu'']"
    unfolding s1 by auto
  have b1: "jwt_decode example_env ''second''
      = Some [(''exp'', PInt 2000), (''iss'', PStr ''https://idp2'')]"
    and b2: "map_of [(''exp'', PInt 2000), (''iss'', PStr ''https://idp2'')] ''iss''
      = Some (PStr ''https://idp2'')"
    and b3: "requests_get example_env (''https://idp2'' @ ''/.well-known/openid-configuration'') []
      = Response 200 (Some (PDict [(''userinfo_endpoint'', PStr ''https://idp2/me'')]))"
    and b5: "map_of [(''userinfo_endpoint'', PStr ''https://idp2/me'')] ''userinfo_endpoint''
      = Some (PStr ''https://idp2/me'')"
    and b6: "requests_get example_env ''https://idp2/me''
        [(''Authorization'', ''Bearer '' @ ''second'')]
      = Response 200
          (Some (PDict [(''eduperson_entitlement'', PList (map PStr second_entitlements))]))"
    and b8: "map_of [(''eduperson_entitlement'', PList (map PStr second_entitlements))]
        ''eduperson_entitlement'' = Some (PList (map PStr second_entitlements))"
    by (simp_all add: example_env_def)
  have s2: "{g. \<exists>e \<in> set second_entitlements. vo_of e = Some g}
      = {''vo.other.eu'', ''vo.example.eu''}"
    by (auto simp: second_entitlements_def vo_of_example)
  have o: "sorted_list_of_set {''vo.other.eu'', ''vo.example.eu''}
      = [''vo.example.eu'', ''vo.other.eu'']"
    by code_simp
  from vo_extraction [OF b1 b2 b3 a4 b5 b6 a4 b8]
  have r2: "snd (token_list_vos example_env ''second'')
      = Inr [Some ''vo.example.eu'', Some ''vo.other.eu'']"
    unfolding s2 o by auto
  from r1 r2 show ?thesis
    by (intro conjI)
qed

text \<open>
  C6. The pattern accepts more than the entitlements of the grammar
  \<open>urn:mace:egi.eu:group:GROUP:(ROLE-SEGMENTS:)*role=member#aai.egi.eu\<close>: its dots are
  not escaped and stand for any character, and the match stops where the pattern ends,
  not where the string ends. An entitlement of another authority,
  \<open>...#aai.egi.eu.evil.org\<close>, and one that has other characters in the place of the dots
  are not entitlements of the grammar, and \<open>token_list_vos\<close> lists a VO for each.
\<close>

theorem vo_pattern_accepts_foreign:
  "vo_of ''urn:mace:egi.eu:group:vo.example.eu:role=member#aai.egi.eu.evil.org''
     = Some ''vo.example.eu''
   \<and> vo_of ''urn:mace:egi-eu:group:vo.other.eu:role=member#aai-egi-eu'' = Some ''vo.other.eu''
   \<and> requests_get example_env ''https://idp3/me'' [(''Authorization'', ''Bearer foreign'')]
     = Response 200
         (Some (PDict [(''eduperson_entitlement'',
            PList [PStr ''urn:mace:egi.eu:group:vo.example.eu:role=member#aai.egi.eu.evil.org'',
                   PStr ''urn:mace:egi-eu:group:vo.other.eu:role=member#aai-egi-eu''])]))
   \<and> token_list_vos example_env ''foreign''
     = ([HttpGet ''https://idp3/.well-known/openid-configuration'' [],
         HttpGet ''https://idp3/me'' [(''Authorization'', ''Bearer foreign'')]],
        Inr [Some ''vo.example.eu'', Some ''vo.other.eu''])"
  by code_simp

end
